theory Spec2Isabelle
  imports
    Complex_Main
    "HOL-Library.Char_ord"
    "HOL-Library.List_Lexorder"
    "HOL-Library.AList"
    "HOL-Library.Sublist"
    "HOL-Library.Multiset"
begin

section \<open>Values, dictionaries and entity records\<close>

text \<open>
  The agents of \<^verbatim>\<open>backend/agents.py\<close> exchange Python dictionaries. A dictionary is an
  association list in insertion order; a value is one of the JSON-like shapes the code
  builds. Python strings are lists of bytes (UTF-8), so an ASCII literal is itself.
  Python's unbounded integers are \<^typ>\<open>int\<close>. The float constants the code multiplies
  prices with (\<^verbatim>\<open>0.9\<close>, \<^verbatim>\<open>0.95\<close>, \<^verbatim>\<open>1.2\<close>) are read as exact rationals: rounding of
  IEEE doubles is outside this model.
\<close>

datatype val =
    VNone
  | VBool bool
  | VInt int
  | VStr string
  | VList "val list"
  | VDict "(string \<times> val) list"

type_synonym dict = "(string \<times> val) list"

text \<open>
  Rows of the CSV tables, as \<^verbatim>\<open>DataFrame.to_dict("records")\<close> returns them. Only the
  columns that the modelled functions read are kept. A field is \<open>None\<close> when the
  dictionary has no such key, which is where \<^verbatim>\<open>.get(key, default)\<close> returns its
  default; a key that is present carries a value of the column's type.
\<close>

record property =
  property_id :: "string option"
  asking_price :: "int option"
  epc_expiry :: "string option"
  epc_rating :: "string option"

record vendor =
  vendor_id :: "string option"
  aml_status :: "string option"
  pep_check :: "string option"
  sanctions_check :: "string option"
  aml_certificate_id :: "string option"

record buyer =
  buyer_id :: "string option"
  first_name :: "string option"
  last_name :: "string option"
  max_budget :: "int option"
  buyer_type :: "string option"
  priority_level :: "string option"
  financial_status :: "string option"

text \<open>The tables that \<^verbatim>\<open>DataLoader.load\<close> caches, in row order.\<close>

record tables =
  properties :: "property list"
  vendors :: "vendor list"
  buyers :: "buyer list"

text \<open>\<^verbatim>\<open>dict.get(key)\<close> and \<^verbatim>\<open>dict.get(key, default)\<close> on a string field.\<close>

definition get_str :: "string option \<Rightarrow> val" where
  "get_str v = (case v of None \<Rightarrow> VNone | Some s \<Rightarrow> VStr s)"

definition get_or :: "'a option \<Rightarrow> 'a \<Rightarrow> 'a" where
  "get_or v d = (case v of None \<Rightarrow> d | Some x \<Rightarrow> x)"

section \<open>DataLoader\<close>

text \<open>
  \<^verbatim>\<open>get_property\<close>, \<^verbatim>\<open>get_vendor\<close>, \<^verbatim>\<open>get_buyer\<close>: the first row whose id column equals
  the argument, or the empty dictionary (here \<open>None\<close>) when the table is empty or no row
  matches. The argument is whatever value the context holds; a row matches when its id is
  that string.
\<close>

definition get_property :: "tables \<Rightarrow> val \<Rightarrow> property option" where
  "get_property db pid =
     find (\<lambda>row. case property_id row of None \<Rightarrow> False | Some s \<Rightarrow> VStr s = pid) (properties db)"

definition get_vendor :: "tables \<Rightarrow> val \<Rightarrow> vendor option" where
  "get_vendor db vid =
     find (\<lambda>row. case vendor_id row of None \<Rightarrow> False | Some s \<Rightarrow> VStr s = vid) (vendors db)"

definition get_buyer :: "tables \<Rightarrow> val \<Rightarrow> buyer option" where
  "get_buyer db bid =
     find (\<lambda>row. case buyer_id row of None \<Rightarrow> False | Some s \<Rightarrow> VStr s = bid) (buyers db)"

text \<open>
  \<^verbatim>\<open>search_buyers(criteria)\<close>: each criterion that is present filters the rows, in the
  order of the source. A row with no budget fails both budget comparisons, as a missing
  cell does in pandas.
\<close>

record buyer_criteria =
  min_budget :: "int option"
  max_budget_crit :: "int option"
  buyer_type_crit :: "string option"
  priority_level_crit :: "string option"
  financial_status_crit :: "string option"

definition search_buyers :: "tables \<Rightarrow> buyer_criteria \<Rightarrow> buyer list" where
  "search_buyers db criteria =
     (let result = buyers db;
          result = (case min_budget criteria of None \<Rightarrow> result
                    | Some lo \<Rightarrow> filter (\<lambda>row. case max_budget row of None \<Rightarrow> False | Some m \<Rightarrow> m \<ge> lo) result);
          result = (case max_budget_crit criteria of None \<Rightarrow> result
                    | Some hi \<Rightarrow> filter (\<lambda>row. case max_budget row of None \<Rightarrow> False | Some m \<Rightarrow> m \<le> hi) result);
          result = (case buyer_type_crit criteria of None \<Rightarrow> result
                    | Some t \<Rightarrow> filter (\<lambda>row. buyer_type row = Some t) result);
          result = (case priority_level_crit criteria of None \<Rightarrow> result
                    | Some p \<Rightarrow> filter (\<lambda>row. priority_level row = Some p) result);
          result = (case financial_status_crit criteria of None \<Rightarrow> result
                    | Some f \<Rightarrow> filter (\<lambda>row. financial_status row = Some f) result)
      in result)"

section \<open>IntelligenceAgent\<close>

subsection \<open>\<^verbatim>\<open>_calculate_match_score\<close>\<close>

definition calculate_match_score :: "property \<Rightarrow> buyer \<Rightarrow> int" where
  "calculate_match_score prop b =
     (let score = 50;
          asking = get_or (asking_price prop) 0;
          budget = get_or (max_budget b) 0;
          score = (if budget \<ge> asking then score + 20
                   else if (of_int budget :: rat) \<ge> of_int asking * 0.95 then score + 10
                   else score);
          btype = get_or (buyer_type b) '''';
          score = (if btype = ''chain_free_cash'' then score + 20
                   else if btype = ''first_time_buyer'' then score + 15
                   else score);
          score = (if priority_level b = Some ''hot'' then score + 10 else score)
      in min score 100)"

subsection \<open>\<^verbatim>\<open>_match_buyers\<close>\<close>

text \<open>
  \<^verbatim>\<open>int(x)\<close> on a float truncates towards zero.
\<close>

definition py_int :: "rat \<Rightarrow> int" where
  "py_int x = (if x \<ge> 0 then \<lfloor>x\<rfloor> else \<lceil>x\<rceil>)"

text \<open>The search criteria that \<^verbatim>\<open>_match_buyers\<close> builds from the asking price.\<close>

definition match_criteria :: "int \<Rightarrow> buyer_criteria" where
  "match_criteria asking =
     \<lparr>min_budget = Some (py_int (of_int asking * 0.9)),
      max_budget_crit = Some (py_int (of_int asking * 1.2)),
      buyer_type_crit = None, priority_level_crit = None, financial_status_crit = None\<rparr>"

text \<open>
  One element of the list \<^verbatim>\<open>scored\<close>. The source keeps dictionaries and sorts them by
  their \<^verbatim>\<open>"score"\<close> entry; here the entry is a record, turned into the dictionary when the
  result is built.
\<close>

record scored_buyer =
  sb_buyer_id :: val
  sb_name :: string
  sb_score :: int
  sb_buyer_type :: val
  sb_priority :: val

definition score_buyer :: "property \<Rightarrow> buyer \<Rightarrow> scored_buyer" where
  "score_buyer prop b =
     \<lparr>sb_buyer_id = get_str (buyer_id b),
      sb_name = get_or (first_name b) '''' @ '' '' @ get_or (last_name b) '''',
      sb_score = calculate_match_score prop b,
      sb_buyer_type = get_str (buyer_type b),
      sb_priority = get_str (priority_level b)\<rparr>"

definition scored_dict :: "scored_buyer \<Rightarrow> val" where
  "scored_dict x =
     VDict [(''buyer_id'', sb_buyer_id x), (''name'', VStr (sb_name x)),
            (''score'', VInt (sb_score x)), (''buyer_type'', sb_buyer_type x),
            (''priority'', sb_priority x)]"

text \<open>
  \<^verbatim>\<open>list.sort(key=..., reverse=True)\<close> is a stable sort in descending key order: a stable
  ascending sort on the negated key.
\<close>

definition sort_desc :: "scored_buyer list \<Rightarrow> scored_buyer list" where
  "sort_desc xs = sort_key (\<lambda>x. - sb_score x) xs"

definition no_property_id :: val where
  "no_property_id = VDict [(''status'', VStr ''error''), (''message'', VStr ''No property_id provided'')]"

definition match_buyers :: "tables \<Rightarrow> dict \<Rightarrow> val" where
  "match_buyers db context =
     (case map_of context ''property_id'' of
        None \<Rightarrow> no_property_id
      | Some pid \<Rightarrow>
          (case get_property db pid of
             None \<Rightarrow> no_property_id
           | Some prop \<Rightarrow>
               (let asking = get_or (asking_price prop) 0;
                    criteria = match_criteria asking;
                    found = search_buyers db criteria;
                    scored = map (score_buyer prop) (take 15 found);
                    scored = sort_desc scored
                in VDict [(''status'', VStr ''success''),
                          (''type'', VStr ''buyer_matching''),
                          (''matches_found'', VInt (int (length scored))),
                          (''top_matches'', VList (map scored_dict (take 5 scored)))])))"

subsection \<open>\<^verbatim>\<open>_assess_risk\<close>\<close>

text \<open>The two factor strings start with a UTF-8 encoded symbol.\<close>

definition chain_free_factor :: string where
  "chain_free_factor = [CHR 0xE2, CHR 0x9C, CHR 0x85] @ '' Chain-free cash buyer''"

definition chain_factor :: string where
  "chain_factor = [CHR 0xE2, CHR 0x9A, CHR 0xA0, CHR 0xEF, CHR 0xB8, CHR 0x8F] @ '' Chain buyer''"

definition assess_risk :: "tables \<Rightarrow> dict \<Rightarrow> val" where
  "assess_risk db context =
     (let risk_score = (20::int);
          factors = [];
          (risk_score, factors) =
            (case map_of context ''buyer_id'' of
               None \<Rightarrow> (risk_score, factors)
             | Some bid \<Rightarrow>
                 (case get_buyer db bid of
                    None \<Rightarrow> (risk_score, factors)
                  | Some b \<Rightarrow>
                      if buyer_type b = Some ''chain_free_cash''
                      then (risk_score, factors @ [VStr chain_free_factor])
                      else (risk_score + 20, factors @ [VStr chain_factor])));
          risk_level = (if risk_score < 40 then ''LOW''
                        else if risk_score < 60 then ''MEDIUM'' else ''HIGH'')
      in VDict [(''status'', VStr ''success''), (''risk_level'', VStr risk_level),
                (''risk_score'', VInt risk_score), (''factors'', VList factors)])"

section \<open>ComplianceAgent\<close>

subsection \<open>\<^verbatim>\<open>_check_aml\<close>\<close>

definition no_vendor_id :: val where
  "no_vendor_id = VDict [(''status'', VStr ''error''), (''message'', VStr ''No vendor_id provided'')]"

definition check_aml :: "tables \<Rightarrow> dict \<Rightarrow> val" where
  "check_aml db context =
     (case map_of context ''vendor_id'' of
        None \<Rightarrow> no_vendor_id
      | Some vid \<Rightarrow>
          (case get_vendor db vid of
             None \<Rightarrow> no_vendor_id
           | Some v \<Rightarrow>
               (let passed = list_all id
                      [aml_status v = Some ''verified'',
                       pep_check v = Some ''clear'',
                       sanctions_check v = Some ''clear'']
                in VDict [(''status'', VStr ''success''),
                          (''aml_passed'', VBool passed),
                          (''aml_status'', get_str (aml_status v)),
                          (''certificate_id'', VStr (get_or (aml_certificate_id v) ''''))])))"

subsection \<open>\<^verbatim>\<open>_validate_epc\<close>\<close>

text \<open>
  \<open>today\<close> is the string \<^verbatim>\<open>datetime.now().strftime("%Y-%m-%d")\<close>. Python compares
  strings lexicographically by code point, which on UTF-8 bytes is the lexicographic
  order of the byte lists.
\<close>

definition validate_epc :: "tables \<Rightarrow> string \<Rightarrow> dict \<Rightarrow> val" where
  "validate_epc db today context =
     (case map_of context ''property_id'' of
        None \<Rightarrow> no_property_id
      | Some pid \<Rightarrow>
          (case get_property db pid of
             None \<Rightarrow> no_property_id
           | Some prop \<Rightarrow>
               (let expiry = get_or (epc_expiry prop) '''';
                    valid = (if expiry \<noteq> [] then expiry > today else False)
                in VDict [(''status'', VStr ''success''),
                          (''epc_valid'', VBool valid),
                          (''epc_rating'', VStr (get_or (epc_rating prop) '''')),
                          (''epc_expiry'', VStr expiry)])))"

section \<open>String operations of Python\<close>

text \<open>
  \<^verbatim>\<open>str.lower()\<close>, \<^verbatim>\<open>str.strip()\<close>, \<^verbatim>\<open>sep in s\<close>, \<^verbatim>\<open>s.split(sep)\<close> and \<^verbatim>\<open>str(n)\<close> on
  ASCII text. Bytes outside ASCII are left alone by \<open>lower\<close> and are no white space for
  \<open>strip\<close>.
\<close>

definition lower_char :: "char \<Rightarrow> char" where
  "lower_char c = (if CHR ''A'' \<le> c \<and> c \<le> CHR ''Z'' then char_of (of_char c + (32::nat)) else c)"

definition lower :: "string \<Rightarrow> string" where
  "lower s = map lower_char s"

definition is_space :: "char \<Rightarrow> bool" where
  "is_space c = (c = CHR '' '' \<or> (CHR 0x09 \<le> c \<and> c \<le> CHR 0x0D) \<or> (CHR 0x1C \<le> c \<and> c \<le> CHR 0x1F))"

definition strip :: "string \<Rightarrow> string" where
  "strip s = rev (dropWhile is_space (rev (dropWhile is_space s)))"

fun contains :: "string \<Rightarrow> string \<Rightarrow> bool" where
  "contains sep [] = (sep = [])"
| "contains sep (c # cs) = (prefix sep (c # cs) \<or> contains sep cs)"

text \<open>
  \<^verbatim>\<open>s.split(sep)\<close> scans from the left and cuts at each occurrence of \<open>sep\<close> that does
  not overlap the one before. \<open>cur\<close> is the piece being read. Both call sites pass a
  non-empty literal separator.
\<close>

fun split_from :: "string \<Rightarrow> string \<Rightarrow> string \<Rightarrow> string list" where
  "split_from sep cur [] = [cur]"
| "split_from sep cur (c # cs) =
     (if sep \<noteq> [] \<and> prefix sep (c # cs)
      then cur # split_from sep [] (drop (length sep) (c # cs))
      else split_from sep (cur @ [c]) cs)"

definition py_split :: "string \<Rightarrow> string \<Rightarrow> string list" where
  "py_split sep s = split_from sep [] s"

fun str_nat :: "nat \<Rightarrow> string" where
  "str_nat n = (if n < 10 then [char_of (48 + n)] else str_nat (n div 10) @ [char_of (48 + n mod 10)])"

definition str_int :: "int \<Rightarrow> string" where
  "str_int i = (if i < 0 then ''-'' @ str_nat (nat (- i)) else str_nat (nat i))"

section \<open>OrchestratorAgent\<close>

subsection \<open>Plans and results\<close>

text \<open>
  A plan is the JSON object of the system prompt, read with the types that prompt gives
  its fields; \<open>None\<close> is a missing key. The \<^verbatim>\<open>"agent"\<close> entry of a step is kept as the
  value the JSON holds, since the loop calls \<^verbatim>\<open>.lower()\<close> on it and only a string has that
  method. \<open>raw_response\<close> is set by the fallback of
  \<^verbatim>\<open>analyze_query\<close>, \<open>plan_context\<close> (the key \<^verbatim>\<open>"context"\<close>) and \<open>original_query\<close> by
  \<^verbatim>\<open>process_query\<close>.
\<close>

record plan_step =
  step :: "int option"
  agent :: "val option"
  action :: "string option"

record plan =
  intent :: "string option"
  workflow_type :: "string option"
  plan_id :: "string option"
  plan_name :: "string option"
  agents_required :: "string list option"
  steps :: "plan_step list option"
  estimated_time_ms :: "int option"
  estimated_cost_usd :: "rat option"
  human_approval_required :: "bool option"
  reason_for_human_approval :: "string option"
  entities_involved :: "dict option"
  raw_response :: "string option"
  plan_context :: "dict option"
  original_query :: "string option"

text \<open>One element of \<^verbatim>\<open>results["steps_completed"]\<close>, and the dictionary \<^verbatim>\<open>results\<close>.\<close>

record step_entry =
  done_step :: int
  done_agent :: string
  done_action :: string
  result :: val

record execution_result =
  result_plan_id :: "string option"
  started_at :: string
  steps_completed :: "step_entry list"
  final_output :: val
  status :: string
  completed_at :: "string option"

text \<open>
  Exceptions that the modelled code can raise or let through. \<^verbatim>\<open>execute_plan\<close> and
  \<^verbatim>\<open>process_query\<close> have no \<^verbatim>\<open>try\<close>: whatever is raised inside them, by their own
  statements or by an agent, reaches the caller.
\<close>

datatype exn = AttributeError | IndexError | EOFError | ValueError | TypeError

subsection \<open>\<^verbatim>\<open>execute_plan\<close>\<close>

text \<open>
  An agent is its \<^verbatim>\<open>execute(action, context)\<close>: it returns a result dictionary or raises,
  and either way may change the world \<open>'w\<close> (calls to the language model, log lines). The
  mapping \<^verbatim>\<open>agents\<close> is a partial function from keys to agents.
\<close>

type_synonym 'w agent_exec = "string \<Rightarrow> dict \<Rightarrow> 'w \<Rightarrow> (exn + val) \<times> 'w"

definition skipped :: "string \<Rightarrow> val" where
  "skipped agent_name =
     VDict [(''status'', VStr ''skipped''),
            (''reason'', VStr (''Agent '' @ agent_name @ '' not available''))]"

definition dispatch ::
  "(string \<rightharpoonup> 'w agent_exec) \<Rightarrow> string \<Rightarrow> string \<Rightarrow> dict \<Rightarrow> 'w \<Rightarrow> (exn + val) \<times> 'w" where
  "dispatch agents agent_name act ctx w =
     (if agent_name = ''scout'' \<and> agents ''scout'' \<noteq> None
      then the (agents ''scout'') act ctx w
      else if agent_name = ''intelligence'' \<and> agents ''intelligence'' \<noteq> None
      then the (agents ''intelligence'') act ctx w
      else if agent_name = ''content'' \<and> agents ''content'' \<noteq> None
      then the (agents ''content'') act ctx w
      else if agent_name = ''compliance'' \<and> agents ''compliance'' \<noteq> None
      then the (agents ''compliance'') act ctx w
      else (Inr (skipped agent_name), w))"

text \<open>
  \<^verbatim>\<open>value.lower()\<close>: a string is lower-cased; \<^verbatim>\<open>None\<close>, a number, a list or a dictionary
  has no such method.
\<close>

definition py_lower :: "val \<Rightarrow> exn + string" where
  "py_lower v = (case v of VStr s \<Rightarrow> Inr (lower s) | _ \<Rightarrow> Inl AttributeError)"

text \<open>
  One pass through the body of the loop: the entries recorded so far and the shared
  context go in and come out, unless the pass raises.
\<close>

definition run_step ::
  "(string \<rightharpoonup> 'w agent_exec) \<Rightarrow> plan_step \<Rightarrow> step_entry list \<times> dict \<Rightarrow> 'w \<Rightarrow>
   (exn + step_entry list \<times> dict) \<times> 'w" where
  "run_step agents st s w =
     (case s of (entries, ctx) \<Rightarrow>
        (let step_num = get_or (step st) 0
         in case py_lower (get_or (agent st) (VStr '''')) of
              Inl e \<Rightarrow> (Inl e, w)
            | Inr agent_name \<Rightarrow>
                (let act = get_or (action st) ''''
                 in case dispatch agents agent_name act ctx w of
                      (Inl e, w') \<Rightarrow> (Inl e, w')
                    | (Inr res, w') \<Rightarrow>
                        (let entries' = entries @ [\<lparr>done_step = step_num, done_agent = agent_name,
                                                     done_action = act, result = res\<rparr>];
                             ctx' = AList.update (''step_'' @ str_int step_num @ ''_result'') res ctx
                         in (Inr (entries', ctx'), w')))))"

fun run_steps ::
  "(string \<rightharpoonup> 'w agent_exec) \<Rightarrow> plan_step list \<Rightarrow> step_entry list \<times> dict \<Rightarrow> 'w \<Rightarrow>
   (exn + step_entry list \<times> dict) \<times> 'w" where
  "run_steps agents [] s w = (Inr s, w)"
| "run_steps agents (st # rest) s w =
     (case run_step agents st s w of
        (Inl e, w') \<Rightarrow> (Inl e, w')
      | (Inr s', w') \<Rightarrow> run_steps agents rest s' w')"

text \<open>\<^verbatim>\<open>context.update(entities)\<close>: every pair of \<open>entities\<close> is stored, in order.\<close>

definition dict_update :: "dict \<Rightarrow> dict \<Rightarrow> dict" where
  "dict_update ctx entities = foldl (\<lambda>d (k, v). AList.update k v d) ctx entities"

text \<open>
  \<open>t_start\<close> and \<open>t_end\<close> are the two readings of \<^verbatim>\<open>datetime.now().isoformat()\<close>. The
  context dictionary of the plan, when the plan has one, is the object that the loop
  updates in place, so the plan is returned with it. When a step raises, the function
  returns nothing: the exception is its outcome.
\<close>

definition execute_plan ::
  "(string \<rightharpoonup> 'w agent_exec) \<Rightarrow> plan \<Rightarrow> string \<Rightarrow> string \<Rightarrow> 'w \<Rightarrow>
   (exn + execution_result \<times> plan) \<times> 'w" where
  "execute_plan agents pl t_start t_end w =
     (let results = \<lparr>result_plan_id = plan_id pl, started_at = t_start, steps_completed = [],
                     final_output = VNone, status = ''in_progress'', completed_at = None\<rparr>;
          sts = get_or (steps pl) [];
          ctx = get_or (plan_context pl) [];
          entities = get_or (entities_involved pl) [];
          ctx = dict_update ctx entities
      in case run_steps agents sts (steps_completed results, ctx) w of
           (Inl e, w') \<Rightarrow> (Inl e, w')
         | (Inr (entries, ctx), w') \<Rightarrow>
             (let results = results\<lparr>steps_completed := entries\<rparr>;
                  results = results\<lparr>completed_at := Some t_end\<rparr>;
                  results = results\<lparr>status := ''completed''\<rparr>
              in (Inr (results, pl\<lparr>plan_context := map_option (\<lambda>_. ctx) (plan_context pl)\<rparr>), w')))"

subsection \<open>\<^verbatim>\<open>analyze_query\<close>\<close>

text \<open>
  What \<^verbatim>\<open>analyze_query\<close> calls outside the repository, taken as parameters:
  \<^item> \<open>call_llm\<close>: \<^verbatim>\<open>BaseAgent.call_llm\<close>, the request to the model. It returns the reply
    (or the text of the error it caught) and changes the world;
  \<^item> \<open>json_loads\<close>: \<^verbatim>\<open>json.loads\<close>. It raises \<^verbatim>\<open>JSONDecodeError\<close>, or returns a value
    that is no object (and has no \<^verbatim>\<open>.get\<close>), or returns an object, read as a plan;
  \<^item> \<open>json_dumps\<close>: \<^verbatim>\<open>json.dumps(context, indent=2)\<close>;
  \<^item> \<open>plans_summary\<close>: the rendering of the plan table, or \<^verbatim>\<open>"No plans loaded"\<close>.
\<close>

datatype json_result = JSONDecodeError | NotAnObject | Object plan

record 'w collaborators =
  call_llm :: "string \<Rightarrow> 'w \<Rightarrow> string \<times> 'w"
  json_loads :: "string \<Rightarrow> json_result"
  json_dumps :: "dict \<Rightarrow> string"
  plans_summary :: string

definition nl :: string where
  "nl = [CHR 0x0A]"

definition analysis_prompt :: "string \<Rightarrow> string \<Rightarrow> string \<Rightarrow> string" where
  "analysis_prompt query summary context_str =
     ''Analyze this query and create an execution plan:'' @ nl @ nl @
     ''QUERY: '' @ query @ nl @ nl @
     ''AVAILABLE EXECUTION PLANS:'' @ nl @ summary @ nl @ context_str @ nl @ nl @
     ''Respond with a JSON execution plan.''"

text \<open>\<^verbatim>\<open>xs[i]\<close> raises \<^verbatim>\<open>IndexError\<close> out of range.\<close>

definition item :: "'a list \<Rightarrow> nat \<Rightarrow> exn + 'a" where
  "item xs i = (if i < length xs then Inr (xs ! i) else Inl IndexError)"

text \<open>The two branches that take the text between code fences, and the one that keeps
  the reply.\<close>

definition unfence :: "string \<Rightarrow> exn + string" where
  "unfence response =
     (if contains ''```json'' response
      then (case item (py_split ''```json'' response) 1 of
              Inl e \<Rightarrow> Inl e
            | Inr rest \<Rightarrow> item (py_split ''```'' rest) 0)
      else if contains ''```'' response
      then (case item (py_split ''```'' response) 1 of
              Inl e \<Rightarrow> Inl e
            | Inr rest \<Rightarrow> item (py_split ''```'' rest) 0)
      else Inr response)"

definition default_plan :: "string \<Rightarrow> string \<Rightarrow> plan" where
  "default_plan query response =
     \<lparr>intent = Some query,
      workflow_type = Some ''custom'',
      plan_id = Some ''CUSTOM'',
      plan_name = Some ''Custom Workflow'',
      agents_required = Some [''orchestrator''],
      steps = Some [\<lparr>step = Some 1, agent = Some (VStr ''orchestrator''),
                     action = Some ''Process query''\<rparr>],
      estimated_time_ms = Some 5000,
      estimated_cost_usd = Some 0.10,
      human_approval_required = Some True,
      reason_for_human_approval = None,
      entities_involved = None,
      raw_response = Some response,
      plan_context = None,
      original_query = None\<rparr>"

text \<open>The variable \<^verbatim>\<open>context_str\<close>: empty unless a non-empty context was passed.\<close>

definition context_str :: "'w collaborators \<Rightarrow> dict option \<Rightarrow> string" where
  "context_str ext ctx =
     (case ctx of
        None \<Rightarrow> ''''
      | Some c \<Rightarrow> if c \<noteq> []
                  then nl @ nl @ ''Context provided:'' @ nl @ json_dumps ext c
                  else '''')"

definition analyze_query ::
  "'w collaborators \<Rightarrow> string \<Rightarrow> dict option \<Rightarrow> 'w \<Rightarrow> (exn + plan) \<times> 'w" where
  "analyze_query ext query ctx w =
     (let prompt = analysis_prompt query (plans_summary ext) (context_str ext ctx);
          (response, w') = call_llm ext prompt w
      in case unfence response of
           Inl e \<Rightarrow> (Inl e, w')
         | Inr response \<Rightarrow>
             (case json_loads ext (strip response) of
                JSONDecodeError \<Rightarrow> (Inr (default_plan query response), w')
              | NotAnObject \<Rightarrow> (Inl AttributeError, w')
              | Object pl \<Rightarrow> (Inr pl, w')))"

section \<open>HumanApproval\<close>

text \<open>
  \<^verbatim>\<open>request_approval\<close> prints the plan and then reads lines from the terminal until one
  is an answer. The lines still to come are a list; \<^verbatim>\<open>input()\<close> raises \<^verbatim>\<open>EOFError\<close>
  when there is none left. The printing is left out: the answer does not depend on the
  plan.
\<close>

fun request_approval :: "string list \<Rightarrow> (exn + bool) \<times> string list" where
  "request_approval [] = (Inl EOFError, [])"
| "request_approval (line # rest) =
     (let response = lower (strip line)
      in if response \<in> set [''yes'', ''y'', ''proceed'', ''approve''] then (Inr True, rest)
         else if response \<in> set [''no'', ''n'', ''reject'', ''cancel''] then (Inr False, rest)
         else if response \<in> set [''modify'', ''m'', ''edit''] then request_approval rest
         else request_approval rest)"

section \<open>AgentManager\<close>

text \<open>
  One element of \<^verbatim>\<open>execution_history\<close>, and the dictionary that \<^verbatim>\<open>process_query\<close>
  returns: \<open>env_message\<close> is present on rejection only, \<open>env_results\<close> on completion only.
\<close>

record history_entry =
  hist_query :: string
  hist_plan :: plan
  hist_results :: execution_result
  hist_timestamp :: string

record envelope =
  env_status :: string
  env_message :: "string option"
  env_plan :: plan
  env_results :: "execution_result option"

text \<open>
  \<^verbatim>\<open>process_query\<close>. The state around it is the history of the manager, the terminal
  lines still to be read and the world of the collaborators and agents; \<open>t_start\<close>,
  \<open>t_end\<close> and \<open>t_hist\<close> are the three readings of the clock. An exception, from the
  analysis, the terminal or the execution of the plan, leaves the function before
  anything happens to the history.
\<close>

definition process_query ::
  "'w collaborators \<Rightarrow> (string \<rightharpoonup> 'w agent_exec) \<Rightarrow> string \<times> string \<times> string \<Rightarrow>
   string \<Rightarrow> dict option \<Rightarrow> bool \<Rightarrow>
   history_entry list \<times> string list \<times> 'w \<Rightarrow>
   (exn + envelope) \<times> history_entry list \<times> string list \<times> 'w" where
  "process_query ext agents clock query ctx require_approval s =
     (case (clock, s) of ((t_start, t_end, t_hist), (execution_history, stdin, w)) \<Rightarrow>
        (case analyze_query ext query ctx w of
           (Inl e, w1) \<Rightarrow> (Inl e, execution_history, stdin, w1)
         | (Inr pl, w1) \<Rightarrow>
             (let pl = pl\<lparr>plan_context := Some (get_or ctx [])\<rparr>;
                  pl = pl\<lparr>original_query := Some query\<rparr>;
                  (approved, stdin1) = (if require_approval then request_approval stdin
                                        else (Inr True, stdin))
              in case approved of
                   Inl e \<Rightarrow> (Inl e, execution_history, stdin1, w1)
                 | Inr False \<Rightarrow>
                     (Inr \<lparr>env_status = ''rejected'', env_message = Some ''Plan rejected'',
                           env_plan = pl, env_results = None\<rparr>,
                      execution_history, stdin1, w1)
                 | Inr True \<Rightarrow>
                     (case execute_plan agents pl t_start t_end w1 of
                        (Inl e, w2) \<Rightarrow> (Inl e, execution_history, stdin1, w2)
                      | (Inr (results, pl), w2) \<Rightarrow>
                          (Inr \<lparr>env_status = ''completed'', env_message = None,
                                env_plan = pl, env_results = Some results\<rparr>,
                           execution_history @
                             [\<lparr>hist_query = query, hist_plan = pl, hist_results = results,
                               hist_timestamp = t_hist\<rparr>],
                           stdin1, w2)))))"

section \<open>Example data\<close>

text \<open>
  Concrete inputs on which the theorems below are run: the matching scenario of the
  specification (asking price 300000; budgets 280000, 305000 and 350000), a vendor whose
  PEP check is flagged, a property whose certificate expired, a plan with a known, an
  unknown and an undispatched agent, an agent that raises, a step whose agent is
  \<^verbatim>\<open>null\<close>, and collaborators whose model always gives the same reply. The world of the
  examples counts the calls made to the model and to agents.
\<close>

definition ex_prop :: property where
  "ex_prop = \<lparr>property_id = Some ''PROP-1'', asking_price = Some 300000,
     epc_expiry = Some ''2023-01-01'', epc_rating = Some ''C''\<rparr>"

definition ex_buyer :: "string \<Rightarrow> int \<Rightarrow> string \<Rightarrow> string \<Rightarrow> buyer" where
  "ex_buyer i m t p =
     \<lparr>buyer_id = Some i, first_name = Some ''Ann'', last_name = Some ''Lee'',
      max_budget = Some m, buyer_type = Some t, priority_level = Some p,
      financial_status = None\<rparr>"

definition ex_vendor :: vendor where
  "ex_vendor = \<lparr>vendor_id = Some ''V1'', aml_status = Some ''verified'',
     pep_check = Some ''flagged'', sanctions_check = Some ''clear'',
     aml_certificate_id = Some ''AML-1''\<rparr>"

definition ex_tables :: tables where
  "ex_tables =
     \<lparr>properties = [ex_prop],
      vendors = [ex_vendor],
      buyers = [ex_buyer ''B1'' 280000 ''first_time_buyer'' ''warm'',
                ex_buyer ''B2'' 305000 ''chain'' ''hot'',
                ex_buyer ''B3'' 350000 ''chain_free_cash'' ''hot'',
                ex_buyer ''B4'' 100000 ''chain_free_cash'' ''hot'']\<rparr>"

definition ex_agent :: "nat agent_exec" where
  "ex_agent act ctx n = (Inr (VDict [(''status'', VStr ''success''), (''did'', VStr act)]), Suc n)"

definition ex_agents :: "string \<rightharpoonup> nat agent_exec" where
  "ex_agents = [''orchestrator'' \<mapsto> ex_agent, ''scout'' \<mapsto> ex_agent]"



definition ex_steps :: "plan_step list" where
  "ex_steps =
     [\<lparr>step = Some 1, agent = Some (VStr ''Scout''), action = Some ''find''\<rparr>,
      \<lparr>step = Some 2, agent = Some (VStr ''Robot''), action = Some ''dance''\<rparr>,
      \<lparr>step = Some 3, agent = Some (VStr ''orchestrator''), action = Some ''sum up''\<rparr>]"



definition ex_plan :: plan where
  "ex_plan =
     \<lparr>intent = None, workflow_type = None, plan_id = Some ''PLAN-012'', plan_name = None,
      agents_required = None, steps = Some ex_steps, estimated_time_ms = None,
      estimated_cost_usd = None, human_approval_required = None,
      reason_for_human_approval = None, entities_involved = None, raw_response = None,
      plan_context = None, original_query = None\<rparr>"

definition ex_ext :: "string \<Rightarrow> nat collaborators" where
  "ex_ext reply =
     \<lparr>call_llm = (\<lambda>prompt n. (reply, Suc n)),
      json_loads = (\<lambda>s. if s = ''[]'' then NotAnObject else JSONDecodeError),
      json_dumps = (\<lambda>d. ''{}''),
      plans_summary = ''No plans loaded''\<rparr>"

definition ex_body :: string where
  "ex_body = nl @ ''oops'' @ nl"

definition ex_fenced :: string where
  "ex_fenced = ''```json'' @ ex_body @ ''```''"

section \<open>Evaluation on the example data\<close>

lemma lower_ex:
  "lower ''Scout'' = ''scout''" "lower ''Robot'' = ''robot''"
  "lower ''orchestrator'' = ''orchestrator''"
  "lower ''Intelligence'' = ''intelligence''"
  by code_simp+

lemma str_ex: "str_int 1 = ''1''" "str_int 2 = ''2''" "str_int 3 = ''3''"
  by code_simp+

section \<open>Running the steps\<close>

lemma dispatch_known:
  "dispatch agents name act ctx w =
     (if name \<in> {''scout'', ''intelligence'', ''content'', ''compliance''} \<and> name \<in> dom agents
      then the (agents name) act ctx w
      else (Inr (skipped name), w))"
proof -
  consider "name = ''scout''" | "name = ''intelligence''" | "name = ''content''" | "name = ''compliance''"
    | "name \<notin> {''scout'', ''intelligence'', ''content'', ''compliance''}"
    by blast
  then show ?thesis
  proof cases
    case 1 then show ?thesis by (simp add: dispatch_def domIff)
  next
    case 2 then show ?thesis by (simp add: dispatch_def domIff)
  next
    case 3 then show ?thesis by (simp add: dispatch_def domIff)
  next
    case 4 then show ?thesis by (simp add: dispatch_def domIff)
  next
    case 5 then show ?thesis by (simp add: dispatch_def domIff)
  qed
qed

lemma run_step_returns:
  assumes "run_step agents st (es, c) w = (Inr (es', c'), w')"
  shows "\<exists>name res.
           py_lower (get_or (agent st) (VStr '''')) = Inr name
         \<and> dispatch agents name (get_or (action st) '''') c w = (Inr res, w')
         \<and> es' = es @ [\<lparr>done_step = get_or (step st) 0, done_agent = name,
                          done_action = get_or (action st) '''', result = res\<rparr>]
         \<and> c' = AList.update (''step_'' @ str_int (get_or (step st) 0) @ ''_result'') res c"
  using assms
  by (auto simp add: run_step_def Let_def split: sum.splits prod.splits)

lemma run_steps_returns:
  "run_steps agents xs (es, c) w = (Inr (es', c'), w') \<Longrightarrow>
   \<exists>more. es' = es @ more \<and> length more = length xs"
proof (induction xs arbitrary: es c w)
  case Nil
  then show ?case by simp
next
  case (Cons st xs)
  from Cons.prems obtain es1 c1 w1 where
    one: "run_step agents st (es, c) w = (Inr (es1, c1), w1)"
    and rest: "run_steps agents xs (es1, c1) w1 = (Inr (es', c'), w')"
    by (auto split: sum.splits prod.splits)
  obtain e where e: "es1 = es @ [e]"
    using run_step_returns [OF one] by blast
  obtain more where m: "es' = es1 @ more" "length more = length xs"
    using Cons.IH [OF rest] by blast
  have "es' = es @ (e # more)" using e m(1) by simp
  moreover have "length (e # more) = length (st # xs)" using m(2) by simp
  ultimately show ?case by blast
qed

lemma run_steps_split:
  "run_steps agents (xs @ ys) s w = (Inr r, w') \<Longrightarrow>
   \<exists>s1 w1. run_steps agents xs s w = (Inr s1, w1) \<and> run_steps agents ys s1 w1 = (Inr r, w')"
proof (induction xs arbitrary: s w)
  case Nil
  then show ?case by simp
next
  case (Cons st xs)
  from Cons.prems obtain s0 w0 where
    one: "run_step agents st s w = (Inr s0, w0)"
    and rest: "run_steps agents (xs @ ys) s0 w0 = (Inr r, w')"
    by (auto split: sum.splits prod.splits)
  obtain s1 w1 where
    a: "run_steps agents xs s0 w0 = (Inr s1, w1)" and b: "run_steps agents ys s1 w1 = (Inr r, w')"
    using Cons.IH [OF rest] by blast
  have "run_steps agents (st # xs) s w = (Inr s1, w1)" using one a by simp
  then show ?case using b by blast
qed

lemma execute_plan_returns:
  assumes "execute_plan agents pl t_start t_end w = (Inr (results, pl'), w')"
  shows "\<exists>ctx. run_steps agents (get_or (steps pl) [])
                  ([], dict_update (get_or (plan_context pl) []) (get_or (entities_involved pl) [])) w
                = (Inr (steps_completed results, ctx), w')
              \<and> status results = ''completed''"
  using assms
  by (auto simp add: execute_plan_def Let_def split: sum.splits prod.splits)




lemma ex_run1:
  "run_steps ex_agents (take 1 ex_steps) ([], []) (0::nat) =
     (Inr ([\<lparr>done_step = 1, done_agent = ''scout'', done_action = ''find'',
              result = VDict [(''status'', VStr ''success''), (''did'', VStr ''find'')]\<rparr>],
           [(''step_1_result'', VDict [(''status'', VStr ''success''), (''did'', VStr ''find'')])]), 1)"
  by (simp add: ex_steps_def run_step_def py_lower_def get_or_def lower_ex str_ex dispatch_def
        ex_agents_def ex_agent_def Let_def)

lemma ex_run:
  "run_steps ex_agents ex_steps ([], []) (0::nat) =
     (Inr ([\<lparr>done_step = 1, done_agent = ''scout'', done_action = ''find'',
              result = VDict [(''status'', VStr ''success''), (''did'', VStr ''find'')]\<rparr>,
            \<lparr>done_step = 2, done_agent = ''robot'', done_action = ''dance'',
              result = VDict [(''status'', VStr ''skipped''), (''reason'', VStr ''Agent robot not available'')]\<rparr>,
            \<lparr>done_step = 3, done_agent = ''orchestrator'', done_action = ''sum up'',
              result = VDict [(''status'', VStr ''skipped''),
                              (''reason'', VStr ''Agent orchestrator not available'')]\<rparr>],
           [(''step_1_result'', VDict [(''status'', VStr ''success''), (''did'', VStr ''find'')]),
            (''step_2_result'', VDict [(''status'', VStr ''skipped''), (''reason'', VStr ''Agent robot not available'')]),
            (''step_3_result'', VDict [(''status'', VStr ''skipped''),
                                       (''reason'', VStr ''Agent orchestrator not available'')])]), 1)"
  by (simp add: ex_steps_def run_step_def py_lower_def get_or_def lower_ex str_ex dispatch_def skipped_def
        ex_agents_def ex_agent_def Let_def)

lemma ex_execute:
  "execute_plan ex_agents ex_plan ''t0'' ''t1'' (0::nat) =
     (Inr (\<lparr>result_plan_id = Some ''PLAN-012'', started_at = ''t0'',
            steps_completed =
              [\<lparr>done_step = 1, done_agent = ''scout'', done_action = ''find'',
                 result = VDict [(''status'', VStr ''success''), (''did'', VStr ''find'')]\<rparr>,
               \<lparr>done_step = 2, done_agent = ''robot'', done_action = ''dance'',
                 result = VDict [(''status'', VStr ''skipped''), (''reason'', VStr ''Agent robot not available'')]\<rparr>,
               \<lparr>done_step = 3, done_agent = ''orchestrator'', done_action = ''sum up'',
                 result = VDict [(''status'', VStr ''skipped''),
                                 (''reason'', VStr ''Agent orchestrator not available'')]\<rparr>],
            final_output = VNone, status = ''completed'', completed_at = Some ''t1''\<rparr>,
           ex_plan), 1)"
proof -
  have s: "get_or (steps ex_plan) [] = ex_steps" by (simp add: ex_plan_def get_or_def)
  have c: "dict_update (get_or (plan_context ex_plan) []) (get_or (entities_involved ex_plan) []) = []"
    by (simp add: ex_plan_def get_or_def dict_update_def)
  have p: "plan_id ex_plan = Some ''PLAN-012''" "plan_context ex_plan = None"
    by (simp_all add: ex_plan_def)
  show ?thesis
    unfolding execute_plan_def Let_def s c
    by (simp add: ex_run p)
qed

section \<open>The plan completes when it returns\<close>




section \<open>Step dispatch\<close>

text \<open>
  Claim C2. In a run of \<^verbatim>\<open>execute_plan\<close> that returns, for the step at any position \<open>i\<close>
  of the plan: the steps before it ran to a context \<open>ctx\<close> and a world \<open>w_i\<close>; the agent
  name is the lower-cased \<^verbatim>\<open>"agent"\<close> entry; when it is one of the four dispatched keys and
  that key is in the mapping, the recorded result is what that agent's \<^verbatim>\<open>execute\<close> returns
  on the step's action and on \<open>ctx\<close>; otherwise the recorded result is the two-entry
  dictionary \<^verbatim>\<open>{status: "skipped", reason: "Agent <name> not available"}\<close>. Every step gets
  its entry, in order, so a skipped step does not stop the loop.
\<close>

theorem execute_plan_dispatch:
  assumes "execute_plan agents pl t_start t_end w = (Inr (results, pl'), w')"
      and "i < length (get_or (steps pl) [])"
  shows "\<exists>before ctx w_i name r.
           (let sts = get_or (steps pl) [];
                ctx0 = dict_update (get_or (plan_context pl) []) (get_or (entities_involved pl) []);
                st = sts ! i;
                act = get_or (action st) '''';
                entries = steps_completed results
            in run_steps agents (take i sts) ([], ctx0) w = (Inr (before, ctx), w_i)
             \<and> py_lower (get_or (agent st) (VStr '''')) = Inr name
             \<and> length entries = length sts
             \<and> entries ! i =
                 \<lparr>done_step = get_or (step st) 0, done_agent = name, done_action = act, result = r\<rparr>
             \<and> Inr r =
                 (if name \<in> {''scout'', ''intelligence'', ''content'', ''compliance''} \<and> name \<in> dom agents
                  then fst (the (agents name) act ctx w_i)
                  else Inr (VDict [(''status'', VStr ''skipped''),
                                   (''reason'', VStr (''Agent '' @ name @ '' not available''))])))"
proof -
  define sts where "sts = get_or (steps pl) []"
  define ctx0 where "ctx0 = dict_update (get_or (plan_context pl) []) (get_or (entities_involved pl) [])"
  define st where "st = sts ! i"
  define act where "act = get_or (action st) ''''"
  have i: "i < length sts" using assms(2) by (simp add: sts_def)
  obtain cfin where
    all: "run_steps agents sts ([], ctx0) w = (Inr (steps_completed results, cfin), w')"
    using execute_plan_returns [OF assms(1)] by (auto simp add: sts_def ctx0_def)
  have dec: "sts = take i sts @ (st # drop (Suc i) sts)"
    using i by (simp add: st_def id_take_nth_drop)
  have whole: "run_steps agents (take i sts @ (st # drop (Suc i) sts)) ([], ctx0) w
          = (Inr (steps_completed results, cfin), w')"
    using all dec by simp
  obtain s1 w_i where
    pre: "run_steps agents (take i sts) ([], ctx0) w = (Inr s1, w_i)"
    and post: "run_steps agents (st # drop (Suc i) sts) s1 w_i = (Inr (steps_completed results, cfin), w')"
    using run_steps_split [OF whole] by blast
  obtain before ctx where s1: "s1 = (before, ctx)" by (cases s1)
  have lb: "length before = i"
    using run_steps_returns [of agents "take i sts" "[]" ctx0 w before ctx w_i] pre s1 i by auto
  from post obtain es1 c1 w1 where
    one: "run_step agents st (before, ctx) w_i = (Inr (es1, c1), w1)"
    and rest: "run_steps agents (drop (Suc i) sts) (es1, c1) w1 = (Inr (steps_completed results, cfin), w')"
    unfolding s1 by (auto split: sum.splits prod.splits)
  obtain name r where
    n: "py_lower (get_or (agent st) (VStr '''')) = Inr name"
    and d: "dispatch agents name act ctx w_i = (Inr r, w1)"
    and e: "es1 = before @ [\<lparr>done_step = get_or (step st) 0, done_agent = name,
                              done_action = act, result = r\<rparr>]"
    using run_step_returns [OF one] unfolding act_def by blast
  obtain more where m: "steps_completed results = es1 @ more" "length more = length (drop (Suc i) sts)"
    using run_steps_returns [OF rest] by blast
  have len: "length (steps_completed results) = length sts"
    using m e lb i by simp
  have nth: "steps_completed results ! i =
      \<lparr>done_step = get_or (step st) 0, done_agent = name, done_action = act, result = r\<rparr>"
    using m(1) e lb by (simp add: nth_append)
  have res: "Inr r =
      (if name \<in> {''scout'', ''intelligence'', ''content'', ''compliance''} \<and> name \<in> dom agents
       then fst (the (agents name) act ctx w_i)
       else Inr (VDict [(''status'', VStr ''skipped''),
                        (''reason'', VStr (''Agent '' @ name @ '' not available''))]))"
    using d unfolding dispatch_known by (auto simp add: skipped_def split: if_splits)
  have pre': "run_steps agents (take i sts) ([], ctx0) w = (Inr (before, ctx), w_i)"
    using pre s1 by simp
  show ?thesis
    unfolding Let_def
    using pre' n len nth res
    unfolding sts_def ctx0_def st_def act_def
    by blast
qed

theorem execute_plan_dispatch_witness:
  "execute_plan ex_agents ex_plan ''t0'' ''t1'' (0::nat) =
     (Inr (\<lparr>result_plan_id = Some ''PLAN-012'', started_at = ''t0'',
            steps_completed =
              [\<lparr>done_step = 1, done_agent = ''scout'', done_action = ''find'',
                 result = VDict [(''status'', VStr ''success''), (''did'', VStr ''find'')]\<rparr>,
               \<lparr>done_step = 2, done_agent = ''robot'', done_action = ''dance'',
                 result = VDict [(''status'', VStr ''skipped''), (''reason'', VStr ''Agent robot not available'')]\<rparr>,
               \<lparr>done_step = 3, done_agent = ''orchestrator'', done_action = ''sum up'',
                 result = VDict [(''status'', VStr ''skipped''),
                                 (''reason'', VStr ''Agent orchestrator not available'')]\<rparr>],
            final_output = VNone, status = ''completed'', completed_at = Some ''t1''\<rparr>,
           ex_plan), 1)
   \<and> 1 < length (get_or (steps ex_plan) [])
   \<and> run_steps ex_agents (take 1 (get_or (steps ex_plan) [])) ([], []) (0::nat) =
       (Inr ([\<lparr>done_step = 1, done_agent = ''scout'', done_action = ''find'',
                result = VDict [(''status'', VStr ''success''), (''did'', VStr ''find'')]\<rparr>],
             [(''step_1_result'', VDict [(''status'', VStr ''success''), (''did'', VStr ''find'')])]), 1)
   \<and> py_lower (get_or (agent (get_or (steps ex_plan) [] ! 1)) (VStr '''')) = Inr ''robot''"
proof -
  have s: "get_or (steps ex_plan) [] = ex_steps" by (simp add: ex_plan_def get_or_def)
  have i1: "(1::nat) < length (get_or (steps ex_plan) [])"
    by (simp add: s ex_steps_def)
  have n: "py_lower (get_or (agent (ex_steps ! Suc 0)) (VStr '''')) = Inr ''robot''"
    by (simp add: ex_steps_def get_or_def py_lower_def lower_ex)
  have l: "Suc 0 < length ex_steps" by (simp add: ex_steps_def)
  have r: "run_steps ex_agents (take (Suc 0) ex_steps) ([], []) (0::nat) =
       (Inr ([\<lparr>done_step = 1, done_agent = ''scout'', done_action = ''find'',
                result = VDict [(''status'', VStr ''success''), (''did'', VStr ''find'')]\<rparr>],
             [(''step_1_result'', VDict [(''status'', VStr ''success''), (''did'', VStr ''find'')])]), Suc 0)"
    using ex_run1 by simp
  show ?thesis
    using execute_plan_dispatch [OF ex_execute i1]
    by (simp add: ex_execute s r n l)
qed

section \<open>The match score\<close>

text \<open>
  Claim C3. The score is 50, plus 20 when the budget reaches the asking price and
  otherwise 10 when it reaches 0.95 times the asking price, plus 20 for a
  \<^verbatim>\<open>chain_free_cash\<close> buyer and otherwise 15 for a \<^verbatim>\<open>first_time_buyer\<close>, plus 10 for priority
  \<^verbatim>\<open>hot\<close>, and never more than 100. A missing price or budget counts as 0.
\<close>

theorem match_score_formula:
  "calculate_match_score prop b =
     (let asking = get_or (asking_price prop) 0; budget = get_or (max_budget b) 0
      in min 100
           (50
            + (if budget \<ge> asking then 20
               else if (of_int budget :: rat) \<ge> 0.95 * of_int asking then 10 else 0)
            + (if buyer_type b = Some ''chain_free_cash'' then 20
               else if buyer_type b = Some ''first_time_buyer'' then 15 else 0)
            + (if priority_level b = Some ''hot'' then 10 else 0)))"
  by (cases "buyer_type b") (simp_all add: calculate_match_score_def Let_def get_or_def mult.commute)

theorem match_score_formula_witness:
  "calculate_match_score ex_prop (ex_buyer ''B5'' 290000 ''first_time_buyer'' ''hot'') = 85
   \<and> calculate_match_score ex_prop (ex_buyer ''B3'' 350000 ''chain_free_cash'' ''hot'') = 100
   \<and> calculate_match_score ex_prop (ex_buyer ''B6'' 200000 ''chain'' ''cold'') = 50"
  using match_score_formula [of ex_prop "ex_buyer ''B5'' 290000 ''first_time_buyer'' ''hot''"]
        match_score_formula [of ex_prop "ex_buyer ''B3'' 350000 ''chain_free_cash'' ''hot''"]
        match_score_formula [of ex_prop "ex_buyer ''B6'' 200000 ''chain'' ''cold''"]
  by (simp add: ex_prop_def ex_buyer_def get_or_def)




section \<open>Buyer matching\<close>

lemma search_budget:
  "search_buyers db \<lparr>min_budget = Some lo, max_budget_crit = Some hi,
      buyer_type_crit = None, priority_level_crit = None, financial_status_crit = None\<rparr>
   = filter (\<lambda>row. case max_budget row of None \<Rightarrow> False | Some m \<Rightarrow> lo \<le> m \<and> m \<le> hi) (buyers db)"
  by (auto simp add: search_buyers_def Let_def intro!: filter_cong split: option.splits)

lemma ex_scores:
  "calculate_match_score ex_prop (ex_buyer i 280000 ''first_time_buyer'' ''warm'') = 65"
  "calculate_match_score ex_prop (ex_buyer i 305000 ''chain'' ''hot'') = 80"
  "calculate_match_score ex_prop (ex_buyer i 350000 ''chain_free_cash'' ''hot'') = 100"
  by (simp_all add: calculate_match_score_def ex_prop_def ex_buyer_def get_or_def)

lemma insort_key_map:
  "insort_key f (g x) (map g ys) = map g (insort_key (\<lambda>a. f (g a)) x ys)"
  by (induction ys) simp_all

lemma sort_key_map:
  "sort_key f (map g xs) = map g (sort_key (\<lambda>a. f (g a)) xs)"
  by (induction xs) (simp_all add: insort_key_map)

lemma sort_desc_score_buyer:
  "sort_desc (map (score_buyer prop) bs) =
     map (score_buyer prop) (sort_key (\<lambda>b. - calculate_match_score prop b) bs)"
proof -
  have "(\<lambda>b. - sb_score (score_buyer prop b)) = (\<lambda>b. - calculate_match_score prop b)"
    by (rule ext) (simp add: score_buyer_def)
  then show ?thesis
    by (simp add: sort_desc_def sort_key_map)
qed

lemma scored_dict_score_buyer:
  "scored_dict (score_buyer prop b) =
     VDict [(''buyer_id'', get_str (buyer_id b)),
            (''name'', VStr (get_or (first_name b) '''' @ '' '' @ get_or (last_name b) '''')),
            (''score'', VInt (calculate_match_score prop b)),
            (''buyer_type'', get_str (buyer_type b)),
            (''priority'', get_str (priority_level b))]"
  by (simp add: scored_dict_def score_buyer_def)

text \<open>
  Claim C6. Without \<^verbatim>\<open>property_id\<close> in the context the result is the error dictionary.
  With a property of asking price \<open>A\<close>, the search criteria are \<^verbatim>\<open>min_budget = int(0.9 A)\<close>
  and \<^verbatim>\<open>max_budget = int(1.2 A)\<close>, so the search returns the buyers whose budget lies
  between the two; the first 15 of them are the candidates and \<^verbatim>\<open>matches_found\<close> is their
  number; they are ranked by a stable sort on the negated match score, which rearranges
  them so that scores never increase; \<^verbatim>\<open>top_matches\<close> holds, for each of the first five in
  that ranking, the buyer's id, the first and last name joined by a blank, the match score
  of \<^verbatim>\<open>_calculate_match_score\<close>, the buyer type and the priority level. At \<open>A = 300000\<close> the
  criteria are 270000 and 360000.
\<close>

theorem match_buyers_top_five:
  "(map_of ctx ''property_id'' = None \<longrightarrow>
      match_buyers db ctx = VDict [(''status'', VStr ''error''), (''message'', VStr ''No property_id provided'')])
   \<and> (map_of ctx ''property_id'' = Some pid \<and> get_property db pid = Some prop \<and> asking_price prop = Some A \<longrightarrow>
        (let lo = py_int (0.9 * of_int A); hi = py_int (1.2 * of_int A);
             criteria = \<lparr>min_budget = Some lo, max_budget_crit = Some hi,
                buyer_type_crit = None, priority_level_crit = None, financial_status_crit = None\<rparr>;
             found = search_buyers db criteria;
             candidates = take 15 found;
             ranked = sort_key (\<lambda>b. - calculate_match_score prop b) candidates
         in found = filter (\<lambda>row. case max_budget row of None \<Rightarrow> False | Some m \<Rightarrow> lo \<le> m \<and> m \<le> hi) (buyers db)
            \<and> length candidates \<le> 15
            \<and> mset ranked = mset candidates
            \<and> sorted_wrt (\<lambda>x y. calculate_match_score prop x \<ge> calculate_match_score prop y) ranked
            \<and> match_buyers db ctx =
                VDict [(''status'', VStr ''success''), (''type'', VStr ''buyer_matching''),
                       (''matches_found'', VInt (int (length candidates))),
                       (''top_matches'',
                        VList (map (\<lambda>b. VDict
                                 [(''buyer_id'', get_str (buyer_id b)),
                                  (''name'', VStr (get_or (first_name b) '''' @ '' '' @ get_or (last_name b) '''')),
                                  (''score'', VInt (calculate_match_score prop b)),
                                  (''buyer_type'', get_str (buyer_type b)),
                                  (''priority'', get_str (priority_level b))])
                               (take 5 ranked)))]))
   \<and> match_criteria 300000 = \<lparr>min_budget = Some 270000, max_budget_crit = Some 360000,
        buyer_type_crit = None, priority_level_crit = None, financial_status_crit = None\<rparr>"
proof (intro conjI impI)
  assume "map_of ctx ''property_id'' = None"
  then show "match_buyers db ctx = VDict [(''status'', VStr ''error''), (''message'', VStr ''No property_id provided'')]"
    by (simp add: match_buyers_def no_property_id_def)
next
  assume h: "map_of ctx ''property_id'' = Some pid \<and> get_property db pid = Some prop \<and> asking_price prop = Some A"
  define lo where "lo = py_int (0.9 * of_int A)"
  define hi where "hi = py_int (1.2 * of_int A)"
  define found where "found = search_buyers db \<lparr>min_budget = Some lo, max_budget_crit = Some hi,
                buyer_type_crit = None, priority_level_crit = None, financial_status_crit = None\<rparr>"
  define candidates where "candidates = take 15 found"
  define ranked where "ranked = sort_key (\<lambda>b. - calculate_match_score prop b) candidates"
  have crit: "match_criteria A = \<lparr>min_budget = Some lo, max_budget_crit = Some hi,
                buyer_type_crit = None, priority_level_crit = None, financial_status_crit = None\<rparr>"
    by (simp add: match_criteria_def lo_def hi_def mult.commute)
  have f: "found = filter (\<lambda>row. case max_budget row of None \<Rightarrow> False | Some m \<Rightarrow> lo \<le> m \<and> m \<le> hi) (buyers db)"
    unfolding found_def by (rule search_budget)
  have l: "length candidates \<le> 15" by (simp add: candidates_def)
  have m: "mset ranked = mset candidates" by (simp add: ranked_def)
  have "sorted (map (\<lambda>b. - calculate_match_score prop b) ranked)"
    unfolding ranked_def by (rule sorted_sort_key)
  then have srt: "sorted_wrt (\<lambda>x y. calculate_match_score prop x \<ge> calculate_match_score prop y) ranked"
    by (simp add: sorted_map)
  have scored: "sort_desc (map (score_buyer prop) (take 15 found)) = map (score_buyer prop) ranked"
    by (simp only: sort_desc_score_buyer ranked_def candidates_def)
  have len: "length ranked = length candidates"
    by (simp add: ranked_def)
  have raw: "match_buyers db ctx =
      VDict [(''status'', VStr ''success''), (''type'', VStr ''buyer_matching''),
             (''matches_found'',
              VInt (int (length (sort_desc (map (score_buyer prop) (take 15 found)))))),
             (''top_matches'',
              VList (map scored_dict (take 5 (sort_desc (map (score_buyer prop) (take 15 found))))))]"
    using h unfolding match_buyers_def
    by (simp add: get_or_def Let_def crit found_def)
  have res: "match_buyers db ctx =
      VDict [(''status'', VStr ''success''), (''type'', VStr ''buyer_matching''),
             (''matches_found'', VInt (int (length candidates))),
             (''top_matches'', VList (map (scored_dict \<circ> score_buyer prop) (take 5 ranked)))]"
    unfolding raw scored by (simp add: len take_map)
  have ent: "scored_dict \<circ> score_buyer prop =
      (\<lambda>b. VDict [(''buyer_id'', get_str (buyer_id b)),
                   (''name'', VStr (get_or (first_name b) '''' @ '' '' @ get_or (last_name b) '''')),
                   (''score'', VInt (calculate_match_score prop b)),
                   (''buyer_type'', get_str (buyer_type b)),
                   (''priority'', get_str (priority_level b))])"
    by (rule ext) (simp only: o_apply scored_dict_score_buyer)
  show "let lo = py_int (0.9 * of_int A); hi = py_int (1.2 * of_int A);
             criteria = \<lparr>min_budget = Some lo, max_budget_crit = Some hi,
                buyer_type_crit = None, priority_level_crit = None, financial_status_crit = None\<rparr>;
             found = search_buyers db criteria;
             candidates = take 15 found;
             ranked = sort_key (\<lambda>b. - calculate_match_score prop b) candidates
         in found = filter (\<lambda>row. case max_budget row of None \<Rightarrow> False | Some m \<Rightarrow> lo \<le> m \<and> m \<le> hi) (buyers db)
            \<and> length candidates \<le> 15
            \<and> mset ranked = mset candidates
            \<and> sorted_wrt (\<lambda>x y. calculate_match_score prop x \<ge> calculate_match_score prop y) ranked
            \<and> match_buyers db ctx =
                VDict [(''status'', VStr ''success''), (''type'', VStr ''buyer_matching''),
                       (''matches_found'', VInt (int (length candidates))),
                       (''top_matches'',
                        VList (map (\<lambda>b. VDict
                                 [(''buyer_id'', get_str (buyer_id b)),
                                  (''name'', VStr (get_or (first_name b) '''' @ '' '' @ get_or (last_name b) '''')),
                                  (''score'', VInt (calculate_match_score prop b)),
                                  (''buyer_type'', get_str (buyer_type b)),
                                  (''priority'', get_str (priority_level b))])
                               (take 5 ranked)))]"
    unfolding Let_def lo_def [symmetric] hi_def [symmetric] found_def [symmetric]
      candidates_def [symmetric] ranked_def [symmetric]
    using f l m srt res unfolding ent by (intro conjI)
next
  show "match_criteria 300000 = \<lparr>min_budget = Some 270000, max_budget_crit = Some 360000,
        buyer_type_crit = None, priority_level_crit = None, financial_status_crit = None\<rparr>"
    by (simp add: match_criteria_def py_int_def)
qed

theorem match_buyers_top_five_witness:
  "map_of [(''property_id'', VStr ''PROP-1'')] ''property_id'' = Some (VStr ''PROP-1'')
   \<and> get_property ex_tables (VStr ''PROP-1'') = Some ex_prop
   \<and> asking_price ex_prop = Some 300000
   \<and> match_buyers ex_tables [(''property_id'', VStr ''PROP-1'')] =
       VDict [(''status'', VStr ''success''), (''type'', VStr ''buyer_matching''),
              (''matches_found'', VInt 3),
              (''top_matches'', VList
                 [VDict [(''buyer_id'', VStr ''B3''), (''name'', VStr ''Ann Lee''),
                         (''score'', VInt 100), (''buyer_type'', VStr ''chain_free_cash''),
                         (''priority'', VStr ''hot'')],
                  VDict [(''buyer_id'', VStr ''B2''), (''name'', VStr ''Ann Lee''),
                         (''score'', VInt 80), (''buyer_type'', VStr ''chain''),
                         (''priority'', VStr ''hot'')],
                  VDict [(''buyer_id'', VStr ''B1''), (''name'', VStr ''Ann Lee''),
                         (''score'', VInt 65), (''buyer_type'', VStr ''first_time_buyer''),
                         (''priority'', VStr ''warm'')]])]"
proof -
  have a: "get_property ex_tables (VStr ''PROP-1'') = Some ex_prop"
    by (simp add: get_property_def ex_tables_def ex_prop_def)
  have b: "asking_price ex_prop = Some 300000" by (simp add: ex_prop_def)
  have f: "filter (\<lambda>row. case max_budget row of None \<Rightarrow> False | Some m \<Rightarrow> 270000 \<le> m \<and> m \<le> 360000) (buyers ex_tables)
     = [ex_buyer ''B1'' 280000 ''first_time_buyer'' ''warm'',
        ex_buyer ''B2'' 305000 ''chain'' ''hot'',
        ex_buyer ''B3'' 350000 ''chain_free_cash'' ''hot'']"
    by (simp add: ex_tables_def) (simp add: ex_buyer_def)
  have p: "py_int 270000 = 270000" "py_int 360000 = 360000"
    by (simp_all add: py_int_def)
  have d: "buyer_id (ex_buyer i m t q) = Some i" "first_name (ex_buyer i m t q) = Some ''Ann''"
    "last_name (ex_buyer i m t q) = Some ''Lee''" "buyer_type (ex_buyer i m t q) = Some t"
    "priority_level (ex_buyer i m t q) = Some q" for i m t q
    by (simp_all add: ex_buyer_def)
  show ?thesis
    using match_buyers_top_five [of "[(''property_id'', VStr ''PROP-1'')]" ex_tables "VStr ''PROP-1''" ex_prop 300000] a b
    by (simp add: Let_def p f ex_scores d get_str_def get_or_def)
qed

section \<open>Risk assessment\<close>

text \<open>
  Claim C10. The risk score is 40 with level \<^verbatim>\<open>MEDIUM\<close> when the context names a buyer
  that is found and whose type is not \<^verbatim>\<open>chain_free_cash\<close>; in every other case it is 20
  with level \<^verbatim>\<open>LOW\<close>. The level is never \<^verbatim>\<open>HIGH\<close>.
\<close>

theorem assess_risk_low_or_medium:
  "(let found = Option.bind (map_of ctx ''buyer_id'') (get_buyer db);
        chain = (case found of None \<Rightarrow> False | Some b \<Rightarrow> buyer_type b \<noteq> Some ''chain_free_cash'');
        risk_score = (if chain then 40 else 20);
        risk_level = (if chain then ''MEDIUM'' else ''LOW'')
    in assess_risk db ctx =
         VDict [(''status'', VStr ''success''), (''risk_level'', VStr risk_level),
                (''risk_score'', VInt risk_score),
                (''factors'', VList (case found of None \<Rightarrow> []
                    | Some b \<Rightarrow> [VStr (if chain then chain_factor else chain_free_factor)]))]
       \<and> risk_level \<noteq> ''HIGH'')"
  by (simp add: assess_risk_def Let_def split: option.splits)

theorem assess_risk_low_or_medium_witness:
  "assess_risk ex_tables [(''buyer_id'', VStr ''B2'')] =
     VDict [(''status'', VStr ''success''), (''risk_level'', VStr ''MEDIUM''),
            (''risk_score'', VInt 40), (''factors'', VList [VStr chain_factor])]
   \<and> assess_risk ex_tables [(''buyer_id'', VStr ''B3'')] =
     VDict [(''status'', VStr ''success''), (''risk_level'', VStr ''LOW''),
            (''risk_score'', VInt 20), (''factors'', VList [VStr chain_free_factor])]
   \<and> assess_risk ex_tables [] =
     VDict [(''status'', VStr ''success''), (''risk_level'', VStr ''LOW''),
            (''risk_score'', VInt 20), (''factors'', VList [])]"
proof -
  have b: "get_buyer ex_tables (VStr ''B2'') = Some (ex_buyer ''B2'' 305000 ''chain'' ''hot'')"
     "get_buyer ex_tables (VStr ''B3'') = Some (ex_buyer ''B3'' 350000 ''chain_free_cash'' ''hot'')"
    by (simp_all add: get_buyer_def ex_tables_def ex_buyer_def)
  have t: "buyer_type (ex_buyer ''B2'' 305000 ''chain'' ''hot'') = Some ''chain''"
     "buyer_type (ex_buyer ''B3'' 350000 ''chain_free_cash'' ''hot'') = Some ''chain_free_cash''"
    by (simp_all add: ex_buyer_def)
  show ?thesis
    using assess_risk_low_or_medium [of "[(''buyer_id'', VStr ''B2'')]" ex_tables]
          assess_risk_low_or_medium [of "[(''buyer_id'', VStr ''B3'')]" ex_tables]
          assess_risk_low_or_medium [of "[]" ex_tables]
    by (simp add: Let_def b t)
qed

section \<open>Compliance checks\<close>

text \<open>
  Claim C4. When the vendor named by the context is found, \<^verbatim>\<open>aml_passed\<close> is true exactly
  when \<^verbatim>\<open>aml_status\<close> is \<^verbatim>\<open>verified\<close>, \<^verbatim>\<open>pep_check\<close> is \<^verbatim>\<open>clear\<close> and \<^verbatim>\<open>sanctions_check\<close> is
  \<^verbatim>\<open>clear\<close>, all three at once.
\<close>

theorem check_aml_passed_iff:
  "map_of ctx ''vendor_id'' = Some vid \<Longrightarrow> get_vendor db vid = Some v \<Longrightarrow>
   check_aml db ctx =
     VDict [(''status'', VStr ''success''),
            (''aml_passed'', VBool (aml_status v = Some ''verified'' \<and> pep_check v = Some ''clear''
                                     \<and> sanctions_check v = Some ''clear'')),
            (''aml_status'', get_str (aml_status v)),
            (''certificate_id'', VStr (get_or (aml_certificate_id v) ''''))]"
  by (simp add: check_aml_def)

theorem check_aml_passed_iff_witness:
  "map_of [(''vendor_id'', VStr ''V1'')] ''vendor_id'' = Some (VStr ''V1'')
   \<and> get_vendor ex_tables (VStr ''V1'') = Some ex_vendor
   \<and> check_aml ex_tables [(''vendor_id'', VStr ''V1'')] =
       VDict [(''status'', VStr ''success''), (''aml_passed'', VBool False),
              (''aml_status'', VStr ''verified''), (''certificate_id'', VStr ''AML-1'')]"
proof -
  have a: "map_of [(''vendor_id'', VStr ''V1'')] ''vendor_id'' = Some (VStr ''V1'')" by simp
  have b: "get_vendor ex_tables (VStr ''V1'') = Some ex_vendor"
    by (simp add: get_vendor_def ex_tables_def ex_vendor_def)
  show ?thesis
    using check_aml_passed_iff [OF a b] a b by (simp add: ex_vendor_def get_str_def get_or_def)
qed

text \<open>
  Claim C7. When the property named by the context is found, \<^verbatim>\<open>epc_valid\<close> is true exactly
  when the expiry string is not empty and is greater than today's date in the
  lexicographic order of strings. An expiry of \<^verbatim>\<open>2023-01-01\<close> read on \<^verbatim>\<open>2024-06-01\<close> gives
  false.
\<close>

theorem validate_epc_lexicographic:
  "(map_of ctx ''property_id'' = Some pid \<and> get_property db pid = Some prop \<longrightarrow>
      validate_epc db today ctx =
        VDict [(''status'', VStr ''success''),
               (''epc_valid'', VBool (get_or (epc_expiry prop) '''' \<noteq> ''''
                                      \<and> today < get_or (epc_expiry prop) '''')),
               (''epc_rating'', VStr (get_or (epc_rating prop) '''')),
               (''epc_expiry'', VStr (get_or (epc_expiry prop) ''''))])
   \<and> (map_of ctx ''property_id'' = Some pid \<and> get_property db pid = Some prop
        \<and> epc_expiry prop = Some ''2023-01-01'' \<longrightarrow>
      validate_epc db ''2024-06-01'' ctx =
        VDict [(''status'', VStr ''success''), (''epc_valid'', VBool False),
               (''epc_rating'', VStr (get_or (epc_rating prop) '''')),
               (''epc_expiry'', VStr ''2023-01-01'')])"
  by (simp add: validate_epc_def Let_def get_or_def)

theorem validate_epc_lexicographic_witness:
  "map_of [(''property_id'', VStr ''PROP-1'')] ''property_id'' = Some (VStr ''PROP-1'')
   \<and> get_property ex_tables (VStr ''PROP-1'') = Some ex_prop
   \<and> epc_expiry ex_prop = Some ''2023-01-01''
   \<and> validate_epc ex_tables ''2024-06-01'' [(''property_id'', VStr ''PROP-1'')] =
        VDict [(''status'', VStr ''success''), (''epc_valid'', VBool False),
               (''epc_rating'', VStr ''C''), (''epc_expiry'', VStr ''2023-01-01'')]
   \<and> validate_epc ex_tables ''2022-12-31'' [(''property_id'', VStr ''PROP-1'')] =
        VDict [(''status'', VStr ''success''), (''epc_valid'', VBool True),
               (''epc_rating'', VStr ''C''), (''epc_expiry'', VStr ''2023-01-01'')]"
proof -
  have b: "get_property ex_tables (VStr ''PROP-1'') = Some ex_prop"
    by (simp add: get_property_def ex_tables_def ex_prop_def)
  have c: "epc_expiry ex_prop = Some ''2023-01-01''" "epc_rating ex_prop = Some ''C''"
    by (simp_all add: ex_prop_def)
  show ?thesis
    using validate_epc_lexicographic
            [of "[(''property_id'', VStr ''PROP-1'')]" "VStr ''PROP-1''" ex_tables ex_prop "''2024-06-01''"]
          validate_epc_lexicographic
            [of "[(''property_id'', VStr ''PROP-1'')]" "VStr ''PROP-1''" ex_tables ex_prop "''2022-12-31''"]
          b c
    by (simp add: get_or_def)
qed

section \<open>The fallback plan\<close>

lemma split_from_nonempty: "split_from sep cur s \<noteq> []"
  by (induction sep cur s rule: split_from.induct) auto

lemma split_from_two:
  "sep \<noteq> [] \<Longrightarrow> contains sep s \<Longrightarrow> 2 \<le> length (split_from sep cur s)"
proof (induction sep cur s rule: split_from.induct)
  case (1 sep cur)
  then show ?case by simp
next
  case (2 sep cur c cs)
  show ?case
  proof (cases "prefix sep (c # cs)")
    case True
    have "split_from sep [] (drop (length sep) (c # cs)) \<noteq> []" by (rule split_from_nonempty)
    then have "1 \<le> length (split_from sep [] (drop (length sep) (c # cs)))"
      by (simp add: Suc_le_eq)
    then show ?thesis using True 2(3) by simp
  next
    case False
    then have "contains sep cs" using 2(4) by simp
    then show ?thesis using False 2(2) 2(3) by simp
  qed
qed

lemma unfence_total: "\<exists>body. unfence response = Inr body"
proof -
  have fence: "''```'' \<noteq> []" "''```json'' \<noteq> []" by simp_all
  have first: "\<And>s. \<exists>b. item (py_split ''```'' s) 0 = Inr b"
    using split_from_nonempty [of "''```''" "[]"] by (simp add: item_def py_split_def)
  have second: "\<exists>b. item (py_split sep s) 1 = Inr b" if "sep \<noteq> []" "contains sep s" for sep s
  proof -
    have "2 \<le> length (split_from sep [] s)" using that by (rule split_from_two)
    then have "1 < length (py_split sep s)" by (simp add: py_split_def)
    then show ?thesis by (simp add: item_def)
  qed
  show ?thesis
  proof (cases "contains ''```json'' response")
    case True
    then obtain r where "item (py_split ''```json'' response) 1 = Inr r"
      using second fence(2) by blast
    then show ?thesis using True first by (simp add: unfence_def)
  next
    case False
    show ?thesis
    proof (cases "contains ''```'' response")
      case True
      then obtain r where "item (py_split ''```'' response) 1 = Inr r"
        using second fence(1) by blast
      then show ?thesis using True False first by (simp add: unfence_def)
    next
      case n: False
      then show ?thesis using False by (simp add: unfence_def)
    qed
  qed
qed

lemma contains_fence: "contains ''```json'' s \<Longrightarrow> contains ''```'' s"
proof (induction s)
  case Nil
  then show ?case by simp
next
  case (Cons c cs)
  have p: "prefix ''```'' ''```json''" by simp
  show ?case
  proof (cases "prefix ''```json'' (c # cs)")
    case True
    then have "prefix ''```'' (c # cs)" using p prefix_order.trans by blast
    then show ?thesis by (simp only: contains.simps simp_thms)
  next
    case False
    then have "contains ''```json'' cs" using Cons.prems by (simp only: contains.simps simp_thms)
    then have "contains ''```'' cs" by (rule Cons.IH)
    then show ?thesis by (simp only: contains.simps simp_thms)
  qed
qed

lemma unfence_plain: "\<not> contains ''```'' response \<Longrightarrow> unfence response = Inr response"
  using contains_fence [of response] by (auto simp add: unfence_def)

lemma ex_unfence: "unfence ex_fenced = Inr ex_body"
  by (simp add: unfence_def ex_fenced_def ex_body_def py_split_def item_def nl_def)

lemma ex_strip: "strip ex_body = ''oops''" "strip ''not json'' = ''not json''"
  by (simp_all add: strip_def is_space_def ex_body_def nl_def)

text \<open>
  Claim C5, as amended. \<^verbatim>\<open>analyze_query\<close> calls the model once: the world it returns is
  the one that single call left. Taking the text between code fences never raises. When
  that text, stripped of white space, does not parse, the result is the default plan
  (workflow type \<^verbatim>\<open>custom\<close>, plan id \<^verbatim>\<open>CUSTOM\<close>, the single step 1 for the
  \<^verbatim>\<open>orchestrator\<close> with action \<^verbatim>\<open>Process query\<close>, approval required) and no exception.
  Its \<^verbatim>\<open>raw_response\<close> is the text between the fences, which is the reply of the model
  itself when the reply has no fence.
\<close>

theorem analyze_query_fallback:
  "(let (response, w') = call_llm ext (analysis_prompt query (plans_summary ext) (context_str ext ctx)) w
    in \<exists>body. unfence response = Inr body
         \<and> (\<not> contains ''```'' response \<longrightarrow> body = response)
         \<and> (json_loads ext (strip body) = JSONDecodeError \<longrightarrow>
              analyze_query ext query ctx w =
                (Inr \<lparr>intent = Some query,
                      workflow_type = Some ''custom'',
                      plan_id = Some ''CUSTOM'',
                      plan_name = Some ''Custom Workflow'',
                      agents_required = Some [''orchestrator''],
                      steps = Some [\<lparr>step = Some 1, agent = Some (VStr ''orchestrator''),
                                     action = Some ''Process query''\<rparr>],
                      estimated_time_ms = Some 5000,
                      estimated_cost_usd = Some (1 / 10),
                      human_approval_required = Some True,
                      reason_for_human_approval = None,
                      entities_involved = None,
                      raw_response = Some body,
                      plan_context = None,
                      original_query = None\<rparr>, w')))"
proof -
  obtain response w' where
    c: "call_llm ext (analysis_prompt query (plans_summary ext) (context_str ext ctx)) w = (response, w')"
    by (cases "call_llm ext (analysis_prompt query (plans_summary ext) (context_str ext ctx)) w") auto
  obtain body where b: "unfence response = Inr body" using unfence_total by blast
  have plain: "\<not> contains ''```'' response \<longrightarrow> body = response"
    using b unfence_plain by fastforce
  have fall: "json_loads ext (strip body) = JSONDecodeError \<longrightarrow>
      analyze_query ext query ctx w = (Inr (default_plan query body), w')"
    using b c by (simp add: analyze_query_def Let_def)
  show ?thesis
    unfolding c prod.case Let_def
    using b plain fall by (simp add: default_plan_def)
qed

theorem analyze_query_fallback_witness:
  "json_loads (ex_ext ''not json'') (strip ''not json'') = JSONDecodeError
   \<and> unfence ''not json'' = Inr ''not json''
   \<and> analyze_query (ex_ext ''not json'') ''find buyers'' None (0::nat) =
     (Inr \<lparr>intent = Some ''find buyers'',
           workflow_type = Some ''custom'',
           plan_id = Some ''CUSTOM'',
           plan_name = Some ''Custom Workflow'',
           agents_required = Some [''orchestrator''],
           steps = Some [\<lparr>step = Some 1, agent = Some (VStr ''orchestrator''),
                          action = Some ''Process query''\<rparr>],
           estimated_time_ms = Some 5000,
           estimated_cost_usd = Some (1 / 10),
           human_approval_required = Some True,
           reason_for_human_approval = None,
           entities_involved = None,
           raw_response = Some ''not json'',
           plan_context = None,
           original_query = None\<rparr>, 1)"
proof -
  have n: "\<not> contains ''```'' ''not json''" by simp
  show ?thesis
    using analyze_query_fallback [of "ex_ext ''not json''" "''find buyers''" None "0::nat"] n
    by (auto simp add: ex_ext_def ex_strip unfence_plain)
qed

text \<open>
  Claim C5 as it was stated, with the raw reply of the model attached: for a reply that
  wraps unparsable text in a \<^verbatim>\<open>json\<close> fence, \<^verbatim>\<open>raw_response\<close> is the text inside the fence
  and not the reply.
\<close>

theorem analyze_query_raw_response_counterexample:
  "(let out = analyze_query (ex_ext ex_fenced) ''find buyers'' None (0::nat)
    in json_loads (ex_ext ex_fenced) (strip ex_body) = JSONDecodeError
       \<and> unfence ex_fenced = Inr ex_body
       \<and> map_sum id raw_response (fst out) = Inr (Some ex_body)
       \<and> ex_body \<noteq> ex_fenced)"
proof -
  have a: "fst (analyze_query (ex_ext ex_fenced) ''find buyers'' None (0::nat)) =
      Inr (default_plan ''find buyers'' ex_body)"
    by (simp add: analyze_query_def Let_def ex_ext_def ex_unfence ex_strip)
  have b: "ex_body \<noteq> ex_fenced"
    by (simp add: ex_fenced_def ex_body_def nl_def)
  have c: "json_loads (ex_ext ex_fenced) (strip ex_body) = JSONDecodeError"
    by (simp add: ex_ext_def ex_strip)
  show ?thesis
    unfolding Let_def a using b c ex_unfence by (simp add: default_plan_def)
qed

section \<open>Processing a query\<close>

lemma ex_analyze:
  "analyze_query (ex_ext ''not json'') ''find buyers'' None (0::nat) =
     (Inr (default_plan ''find buyers'' ''not json''), 1)"
  by (simp add: analyze_query_def Let_def ex_ext_def unfence_def strip_def is_space_def)

lemma ex_approval:
  "request_approval [''perhaps'', '' Yes '', ''later''] = (Inr True, [''later''])"
  "request_approval [''m'', ''No''] = (Inr False, [])"
  by code_simp+

lemma ex_execute_default:
  "execute_plan ex_agents
     (default_plan ''find buyers'' ''not json''
        \<lparr>plan_context := Some (get_or None []), original_query := Some ''find buyers''\<rparr>)
     ''t0'' ''t1'' (Suc 0) =
   (Inr (\<lparr>result_plan_id = Some ''CUSTOM'', started_at = ''t0'',
          steps_completed =
            [\<lparr>done_step = 1, done_agent = ''orchestrator'', done_action = ''Process query'',
               result = VDict [(''status'', VStr ''skipped''),
                               (''reason'', VStr ''Agent orchestrator not available'')]\<rparr>],
          final_output = VNone, status = ''completed'', completed_at = Some ''t1''\<rparr>,
         default_plan ''find buyers'' ''not json''
           \<lparr>plan_context :=
              Some [(''step_1_result'',
                     VDict [(''status'', VStr ''skipped''),
                            (''reason'', VStr ''Agent orchestrator not available'')])],
            original_query := Some ''find buyers''\<rparr>),
    Suc 0)"
  by (simp add: execute_plan_def Let_def default_plan_def get_or_def dict_update_def run_step_def
        py_lower_def lower_ex str_ex dispatch_def skipped_def ex_agents_def)

text \<open>
  Claim C9, as amended. Once a plan has been synthesised: when no approval is asked for,
  or the operator approves, the plan is executed; if the execution returns, one entry
  with the query, the plan, the results and the time stamp is appended to the history and
  the envelope has status \<^verbatim>\<open>completed\<close> with the plan and the results; if the execution
  raises, the exception reaches the caller and the history is left as it was. When the
  operator refuses, the envelope has status \<^verbatim>\<open>rejected\<close> with the plan and the history is
  left as it was.
\<close>

theorem process_query_outcomes:
  "analyze_query ext query ctx w = (Inr pl0, w1) \<Longrightarrow>
   (let pl1 = pl0\<lparr>plan_context := Some (get_or ctx []), original_query := Some query\<rparr>;
        (answer, rest) = (if require_approval then request_approval stdin else (Inr True, stdin));
        out = process_query ext agents (t_start, t_end, t_hist) query ctx require_approval
                (history, stdin, w)
    in (answer = Inr True \<longrightarrow>
          (\<forall>results pl2 w2.
              execute_plan agents pl1 t_start t_end w1 = (Inr (results, pl2), w2) \<longrightarrow>
              out = (Inr \<lparr>env_status = ''completed'', env_message = None, env_plan = pl2,
                          env_results = Some results\<rparr>,
                     history @ [\<lparr>hist_query = query, hist_plan = pl2, hist_results = results,
                                  hist_timestamp = t_hist\<rparr>],
                     rest, w2))
          \<and> (\<forall>e w2.
              execute_plan agents pl1 t_start t_end w1 = (Inl e, w2) \<longrightarrow>
              out = (Inl e, history, rest, w2)))
       \<and> (answer = Inr False \<longrightarrow>
          out = (Inr \<lparr>env_status = ''rejected'', env_message = Some ''Plan rejected'',
                      env_plan = pl1, env_results = None\<rparr>,
                 history, rest, w1)))"
  by (simp add: process_query_def Let_def split: prod.splits sum.splits bool.splits)

theorem process_query_outcomes_witness:
  "analyze_query (ex_ext ''not json'') ''find buyers'' None (0::nat)
     = (Inr (default_plan ''find buyers'' ''not json''), 1)
   \<and> request_approval [''perhaps'', '' Yes '', ''later''] = (Inr True, [''later''])
   \<and> process_query (ex_ext ''not json'') ex_agents (''t0'', ''t1'', ''t2'') ''find buyers''
        None True ([], [''perhaps'', '' Yes '', ''later''], 0) =
      (Inr \<lparr>env_status = ''completed'', env_message = None,
            env_plan =
              default_plan ''find buyers'' ''not json''
                \<lparr>plan_context :=
                   Some [(''step_1_result'',
                          VDict [(''status'', VStr ''skipped''),
                                 (''reason'', VStr ''Agent orchestrator not available'')])],
                 original_query := Some ''find buyers''\<rparr>,
            env_results =
              Some \<lparr>result_plan_id = Some ''CUSTOM'', started_at = ''t0'',
                     steps_completed =
                       [\<lparr>done_step = 1, done_agent = ''orchestrator'', done_action = ''Process query'',
                          result = VDict [(''status'', VStr ''skipped''),
                                          (''reason'', VStr ''Agent orchestrator not available'')]\<rparr>],
                     final_output = VNone, status = ''completed'', completed_at = Some ''t1''\<rparr>\<rparr>,
       [\<lparr>hist_query = ''find buyers'',
          hist_plan =
            default_plan ''find buyers'' ''not json''
              \<lparr>plan_context :=
                 Some [(''step_1_result'',
                        VDict [(''status'', VStr ''skipped''),
                               (''reason'', VStr ''Agent orchestrator not available'')])],
               original_query := Some ''find buyers''\<rparr>,
          hist_results =
            \<lparr>result_plan_id = Some ''CUSTOM'', started_at = ''t0'',
              steps_completed =
                [\<lparr>done_step = 1, done_agent = ''orchestrator'', done_action = ''Process query'',
                   result = VDict [(''status'', VStr ''skipped''),
                                   (''reason'', VStr ''Agent orchestrator not available'')]\<rparr>],
              final_output = VNone, status = ''completed'', completed_at = Some ''t1''\<rparr>,
          hist_timestamp = ''t2''\<rparr>],
       [''later''], 1)"
  using process_query_outcomes [OF ex_analyze, of True "[''perhaps'', '' Yes '', ''later'']"
          ex_agents "''t0''" "''t1''" "''t2''" "[]"]
  by (simp add: ex_analyze ex_approval ex_execute_default Let_def del: request_approval.simps)

text \<open>
  Claim C9 as it was stated, with rejected queries recorded too: a query whose plan the
  operator refuses returns the \<^verbatim>\<open>rejected\<close> envelope and leaves the history empty.
\<close>

theorem process_query_rejected_counterexample:
  "(let out = process_query (ex_ext ''not json'') ex_agents (''t0'', ''t1'', ''t2'') ''find buyers''
                None True ([], [''m'', ''No''], 0)
    in map_sum id env_status (fst out) = Inr ''rejected''
       \<and> fst (snd out) = [])"
  by (simp add: process_query_def ex_analyze ex_approval Let_def del: request_approval.simps)

end
